theory Spec2Isabelle
  imports Main
begin

section \<open>Action tokens\<close>

text \<open>
  The nine module-level action tokens of \<^verbatim>\<open>termux.py\<close>. Python strings are modelled
  as \<^typ>\<open>string\<close>, one \<^typ>\<open>char\<close> per code point.
\<close>

definition ACTION_CLICK :: string where "ACTION_CLICK = ''click''"
definition ACTION_DELETE :: string where "ACTION_DELETE = ''delete''"
definition ACTION_BUTTON1 :: string where "ACTION_BUTTON1 = ''button1''"
definition ACTION_BUTTON2 :: string where "ACTION_BUTTON2 = ''button2''"
definition ACTION_BUTTON3 :: string where "ACTION_BUTTON3 = ''button3''"
definition ACTION_MEDIA_PLAY :: string where "ACTION_MEDIA_PLAY = ''media_play''"
definition ACTION_MEDIA_PAUSE :: string where "ACTION_MEDIA_PAUSE = ''media_pause''"
definition ACTION_MEDIA_NEXT :: string where "ACTION_MEDIA_NEXT = ''media_next''"
definition ACTION_MEDIA_PREVIOUS :: string where "ACTION_MEDIA_PREVIOUS = ''media_previous''"

lemmas action_defs =
  ACTION_CLICK_def ACTION_DELETE_def ACTION_BUTTON1_def ACTION_BUTTON2_def
  ACTION_BUTTON3_def ACTION_MEDIA_PLAY_def ACTION_MEDIA_PAUSE_def
  ACTION_MEDIA_NEXT_def ACTION_MEDIA_PREVIOUS_def

section \<open>The Notification class\<close>

text \<open>
  An \<^verbatim>\<open>ActionCallback\<close> is \<^verbatim>\<open>Optional[Callable[[], Coroutine]]\<close>. A coroutine function
  is modelled by a name; \<^verbatim>\<open>None\<close> is \<^term>\<open>None\<close>. A function object is always
  truthy in Python, so \<^verbatim>\<open>if n.action_click\<close> asks whether the field is not \<^verbatim>\<open>None\<close>.
\<close>

datatype handler = Handler nat

type_synonym ActionCallback = "handler option"

fun truthy :: "ActionCallback \<Rightarrow> bool" where
  "truthy None = False"
| "truthy (Some h) = True"

record notification =
  n_id :: int
  content :: string
  title :: string
  group :: string
  priority :: string
  n_type :: string
  alert_once :: bool
  ongoing :: bool
  sound :: bool
  image_path :: string
  icon :: string
  vibrate :: string
  button1 :: string
  button2 :: string
  button3 :: string
  action_button1 :: ActionCallback
  action_button2 :: ActionCallback
  action_button3 :: ActionCallback
  action_click :: ActionCallback
  action_delete :: ActionCallback
  action_media_play :: ActionCallback
  action_media_pause :: ActionCallback
  action_media_next :: ActionCallback
  action_media_previous :: ActionCallback

text \<open>
  \<^verbatim>\<open>Notification.__init__\<close>: the twelve constructor arguments are stored, the button
  labels start empty and every action starts unbound. (The keyword defaults of the
  Python signature are written out by the caller here.)
\<close>

definition Notification_init ::
  "int \<Rightarrow> string \<Rightarrow> string \<Rightarrow> string \<Rightarrow> string \<Rightarrow> string \<Rightarrow> bool \<Rightarrow> bool \<Rightarrow> bool \<Rightarrow>
   string \<Rightarrow> string \<Rightarrow> string \<Rightarrow> notification" where
  "Notification_init i c t g p ty ao og so ip ic vb =
     \<lparr> n_id = i, content = c, title = t, group = g, priority = p, n_type = ty,
       alert_once = ao, ongoing = og, sound = so, image_path = ip, icon = ic,
       vibrate = vb, button1 = [], button2 = [], button3 = [],
       action_button1 = None, action_button2 = None, action_button3 = None,
       action_click = None, action_delete = None, action_media_play = None,
       action_media_pause = None, action_media_next = None,
       action_media_previous = None \<rparr>"

definition set_click_action :: "notification \<Rightarrow> ActionCallback \<Rightarrow> notification" where
  "set_click_action n cb = n\<lparr>action_click := cb\<rparr>"

definition set_delete_action :: "notification \<Rightarrow> ActionCallback \<Rightarrow> notification" where
  "set_delete_action n cb = n\<lparr>action_delete := cb\<rparr>"

definition set_media_play_action :: "notification \<Rightarrow> ActionCallback \<Rightarrow> notification" where
  "set_media_play_action n cb = n\<lparr>action_media_play := cb\<rparr>"

definition set_media_pause_action :: "notification \<Rightarrow> ActionCallback \<Rightarrow> notification" where
  "set_media_pause_action n cb = n\<lparr>action_media_pause := cb\<rparr>"

text \<open>
  The source defines \<^verbatim>\<open>set_media_next_action\<close> twice with the same body, and no setter
  for \<^verbatim>\<open>action_media_previous\<close>.
\<close>

definition set_media_next_action :: "notification \<Rightarrow> ActionCallback \<Rightarrow> notification" where
  "set_media_next_action n cb = n\<lparr>action_media_next := cb\<rparr>"

text \<open>
  The button setters. In the source the two assignments after the \<^verbatim>\<open>if\<close> are not in
  an \<^verbatim>\<open>else\<close> branch and the \<^verbatim>\<open>if\<close> branch does not return, so they run in every
  case, after the clearing assignments when the condition holds. The model keeps
  that order of updates.
\<close>

definition set_button1 :: "notification \<Rightarrow> string \<Rightarrow> ActionCallback \<Rightarrow> notification" where
  "set_button1 n button_text action_callback =
     (let n1 = (if button_text = [] \<or> action_callback = None
                then n\<lparr>button1 := [], action_button1 := None\<rparr> else n)
      in n1\<lparr>button1 := button_text, action_button1 := action_callback\<rparr>)"

definition set_button2 :: "notification \<Rightarrow> string \<Rightarrow> ActionCallback \<Rightarrow> notification" where
  "set_button2 n button_text action_callback =
     (let n1 = (if button_text = [] \<or> action_callback = None
                then n\<lparr>button2 := [], action_button2 := None\<rparr> else n)
      in n1\<lparr>button2 := button_text, action_button2 := action_callback\<rparr>)"

definition set_button3 :: "notification \<Rightarrow> string \<Rightarrow> ActionCallback \<Rightarrow> notification" where
  "set_button3 n button_text action_callback =
     (let n1 = (if button_text = [] \<or> action_callback = None
                then n\<lparr>button3 := [], action_button3 := None\<rparr> else n)
      in n1\<lparr>button3 := button_text, action_button3 := action_callback\<rparr>)"

text \<open>\<^verbatim>\<open>Notification.__eq__\<close>: two notifications are equal when their ids are.\<close>

definition notification_eq :: "notification \<Rightarrow> notification \<Rightarrow> bool" where
  "notification_eq a b = (n_id a = n_id b)"

section \<open>The live set\<close>

text \<open>
  \<^verbatim>\<open>notification_set\<close> is a Python \<^verbatim>\<open>set\<close> whose membership test is \<^verbatim>\<open>__eq__\<close>, that is,
  equality of ids. It is modelled as a list: \<^verbatim>\<open>discard\<close> takes out the element equal
  to its argument, \<^verbatim>\<open>add\<close> inserts its argument unless an equal element is already
  there (the old element stays). The list order stands for the iteration order,
  which Python leaves open. That no two elements have the same id is not built into
  the type; it is the invariant \<open>live_ok\<close>, proved below for every operation.
  Notifications are values: a notification is not mutated while it is live.
\<close>

fun set_discard :: "notification \<Rightarrow> notification list \<Rightarrow> notification list" where
  "set_discard x [] = []"
| "set_discard x (y # ys) = (if notification_eq y x then ys else y # set_discard x ys)"

definition set_add :: "notification \<Rightarrow> notification list \<Rightarrow> notification list" where
  "set_add x xs = (if list_ex (\<lambda>y. notification_eq y x) xs then xs else xs @ [x])"

section \<open>Strings and shell quoting\<close>

text \<open>\<^verbatim>\<open>str(i)\<close> for a Python int: the decimal digits, with a minus sign below zero.\<close>

fun str_nat :: "nat \<Rightarrow> string" where
  "str_nat n = (if n < 10 then [''0123456789'' ! n]
                else str_nat (n div 10) @ [''0123456789'' ! (n mod 10)])"

declare str_nat.simps [simp del]

definition str_int :: "int \<Rightarrow> string" where
  "str_int i = (if i < 0 then CHR ''-'' # str_nat (nat (- i)) else str_nat (nat i))"

text \<open>
  \<^verbatim>\<open>shlex.quote\<close>: the empty string becomes two single quotes; a string of safe
  characters only (ASCII letters, digits and \<^verbatim>\<open>_@%+=:,./-\<close>) is left alone; any other
  string is wrapped in single quotes, each single quote inside it replaced by
  quote, double quote, quote, double quote, quote. \<^verbatim>\<open>shlex.join\<close> quotes every
  argument and joins them with one space.
\<close>

definition safe_char :: "char \<Rightarrow> bool" where
  "safe_char c =
     (c \<in> set (''abcdefghijklmnopqrstuvwxyz'' @ ''ABCDEFGHIJKLMNOPQRSTUVWXYZ'' @
               ''0123456789'' @ ''_@%+=:,./-''))"

definition shlex_quote :: "string \<Rightarrow> string" where
  "shlex_quote s =
     (if s = [] then [CHR 0x27, CHR 0x27]
      else if list_all safe_char s then s
      else [CHR 0x27] @
           concat (map (\<lambda>c. if c = CHR 0x27
                              then [CHR 0x27, CHR 0x22, CHR 0x27, CHR 0x22, CHR 0x27]
                              else [c]) s) @
           [CHR 0x27])"

fun join_with :: "string \<Rightarrow> string list \<Rightarrow> string" where
  "join_with sep [] = []"
| "join_with sep [x] = x"
| "join_with sep (x # y # ys) = x @ sep @ join_with sep (y # ys)"

definition shlex_join :: "string list \<Rightarrow> string" where
  "shlex_join args = join_with '' '' (map shlex_quote args)"

text \<open>
  \<^verbatim>\<open>str.split(sep)\<close> with a one-character separator: every occurrence of the separator
  ends a field, so adjacent separators give empty fields and the empty string gives
  one empty field.
\<close>

fun split_on :: "char \<Rightarrow> string \<Rightarrow> string list" where
  "split_on c [] = [[]]"
| "split_on c (x # xs) =
     (if x = c then [] # split_on c xs
      else (case split_on c xs of
              w # ws \<Rightarrow> (x # w) # ws
            | [] \<Rightarrow> [[x]]))"

section \<open>The manager and its effects\<close>

text \<open>
  The paths of the external programs are module constants computed from the search
  path when the module is loaded; they are a parameter of the model.
\<close>

record tools =
  TERMUX_NOTIFICATION :: string
  TERMUX_NOTIFICATION_REMOVE :: string
  CURL :: string

text \<open>
  An \<^verbatim>\<open>asyncio.Server\<close> is created bound but not serving
  (\<^verbatim>\<open>start_serving=False\<close>), serves after \<^verbatim>\<open>start_serving()\<close> and is closed
  by \<^verbatim>\<open>close()\<close>; closing a closed server does nothing.
\<close>

datatype server_state = Bound | Serving | Closed

record manager =
  socketpath :: string
  server :: "server_state option"
  notification_set :: "notification list"
  nid :: int

text \<open>
  What the manager does to the outside is kept beside its fields: \<open>ran\<close>, the shell
  commands given to \<^verbatim>\<open>_run\<close>; \<open>tasks\<close>, the handlers scheduled with
  \<^verbatim>\<open>asyncio.create_task\<close>; \<open>written\<close>, the responses written to callback
  connections; \<open>closed\<close>, the number of callback connections that their handler
  has closed with \<^verbatim>\<open>writer.close()\<close>.
\<close>

record process = manager +
  ran :: "string list"
  tasks :: "handler list"
  written :: "string list"
  closed :: nat

datatype py_error = ValueError | UnicodeDecodeError | AttributeError

text \<open>
  A call that may raise returns either \<open>Inl (e, w)\<close>, the exception and the state at
  the moment it is raised, or \<open>Inr w\<close>, the state after a normal return.
\<close>

type_synonym outcome = "(py_error \<times> process) + process"

text \<open>
  \<^verbatim>\<open>NotificationManager.__init__\<close>. The socket path holds a random UUID and is an
  argument here.
\<close>

definition NotificationManager_init :: "string \<Rightarrow> process" where
  "NotificationManager_init path =
     \<lparr> socketpath = path, server = None, notification_set = [], nid = 0,
       ran = [], tasks = [], written = [], closed = 0 \<rparr>"

text \<open>
  \<^verbatim>\<open>_run(cmd)\<close>: an argument list is joined with \<^verbatim>\<open>shlex.join\<close> first; the command
  line is then handed to the shell. The exit status is not looked at.
\<close>

datatype cmd = Line string | Args "string list"

fun run :: "cmd \<Rightarrow> process \<Rightarrow> process" where
  "run (Line s) w = w\<lparr>ran := ran w @ [s]\<rparr>"
| "run (Args args) w = w\<lparr>ran := ran w @ [shlex_join args]\<rparr>"

text \<open>\<^verbatim>\<open>asyncio.create_task(h())\<close>: the handler is scheduled and not awaited.\<close>

fun create_task :: "ActionCallback \<Rightarrow> process \<Rightarrow> process" where
  "create_task (Some h) w = w\<lparr>tasks := tasks w @ [h]\<rparr>"
| "create_task None w = w"

subsection \<open>Building the display command\<close>

definition curl_cmd :: "tools \<Rightarrow> process \<Rightarrow> string \<Rightarrow> string" where
  "curl_cmd t w action_id =
     shlex_join [CURL t, ''-GET'', ''--unix-socket'', socketpath w,
                 ''http://localhost/'' @ action_id]"

definition callback_id :: "notification \<Rightarrow> string \<Rightarrow> string" where
  "callback_id n action = str_int (n_id n) @ '':'' @ action"

text \<open>
  \<^verbatim>\<open>_notification_cmd\<close> grows one argument list by \<^verbatim>\<open>extend\<close> and \<^verbatim>\<open>append\<close>.
  \<open>notification_opts\<close> keeps what each of these calls adds as one group, in the order
  of the source; the argument list is their concatenation and the command is its
  \<^verbatim>\<open>shlex.join\<close>.
\<close>

definition notification_opts :: "tools \<Rightarrow> process \<Rightarrow> notification \<Rightarrow> string list list" where
  "notification_opts t w n =
     [[TERMUX_NOTIFICATION t]] @
     [[''--id'', str_int (n_id n)]] @
     [[''--content'', content n]] @
     (if title n \<noteq> [] then [[''--title'', title n]] else []) @
     (if group n \<noteq> [] then [[''--group'', group n]] else []) @
     (if priority n \<noteq> [] then [[''--priority'', priority n]] else []) @
     (if n_type n \<noteq> [] then [[''--type'', n_type n]] else []) @
     (if alert_once n then [[''--alert-once'']] else []) @
     (if ongoing n then [[''--ongoing'']] else []) @
     (if sound n then [[''--sound'']] else []) @
     (if image_path n \<noteq> [] then [[''--image-path'', image_path n]] else []) @
     (if icon n \<noteq> [] then [[''--icon'', icon n]] else []) @
     (if vibrate n \<noteq> [] then [[''--vibrate'', vibrate n]] else []) @
     (if truthy (action_click n) \<or> \<not> ongoing n
      then [[''--action'', curl_cmd t w (callback_id n ACTION_CLICK)]] else []) @
     (if truthy (action_delete n) \<or> \<not> ongoing n
      then [[''--on-delete'', curl_cmd t w (callback_id n ACTION_DELETE)]] else []) @
     (if n_type n = ''media'' then
        (if truthy (action_media_play n)
         then [[''--media-play'', curl_cmd t w (callback_id n ACTION_MEDIA_PLAY)]] else []) @
        (if truthy (action_media_pause n)
         then [[''--media-pause'', curl_cmd t w (callback_id n ACTION_MEDIA_PAUSE)]] else []) @
        (if truthy (action_media_next n)
         then [[''--media-next'', curl_cmd t w (callback_id n ACTION_MEDIA_NEXT)]] else []) @
        (if truthy (action_media_previous n)
         then [[''--media-previous'', curl_cmd t w (callback_id n ACTION_MEDIA_PREVIOUS)]]
         else [])
      else []) @
     (if button1 n \<noteq> [] then [[''--button1'', button1 n]] else []) @
     (if button2 n \<noteq> [] then [[''--button2'', button2 n]] else []) @
     (if button3 n \<noteq> [] then [[''--button3'', button3 n]] else []) @
     (if truthy (action_button1 n)
      then [[''--button1-action'', curl_cmd t w (callback_id n ACTION_BUTTON1)]] else []) @
     (if truthy (action_button2 n)
      then [[''--button2-action'', curl_cmd t w (callback_id n ACTION_BUTTON2)]] else []) @
     (if truthy (action_button3 n)
      then [[''--button3-action'', curl_cmd t w (callback_id n ACTION_BUTTON3)]] else []) @
     (if title n \<noteq> [] then [[''--title'', title n]] else [])"

definition notification_cmd :: "tools \<Rightarrow> process \<Rightarrow> notification \<Rightarrow> string" where
  "notification_cmd t w n = shlex_join (concat (notification_opts t w n))"

text \<open>
  The values a command carries for one flag: the second elements of the two-element
  groups that start with the flag, in order.
\<close>

fun values_of :: "string \<Rightarrow> string list list \<Rightarrow> string list" where
  "values_of f [] = []"
| "values_of f ([g, v] # gs) = (if g = f then v # values_of f gs else values_of f gs)"
| "values_of f (_ # gs) = values_of f gs"

text \<open>How often a value-less flag occurs as a group of its own.\<close>

definition flag_count :: "string \<Rightarrow> string list list \<Rightarrow> nat" where
  "flag_count f gs = length (filter (\<lambda>g. g = [f]) gs)"

subsection \<open>Registry operations\<close>

text \<open>
  \<^verbatim>\<open>send_notification\<close>: discard, then add, with no suspension point in between;
  then the display command is built and run.
\<close>

definition send_notification :: "tools \<Rightarrow> process \<Rightarrow> notification \<Rightarrow> process" where
  "send_notification t w notification_item =
     (let w1 = w\<lparr>notification_set := set_discard notification_item (notification_set w)\<rparr>;
          w2 = w1\<lparr>notification_set := set_add notification_item (notification_set w1)\<rparr>;
          c = notification_cmd t w2 notification_item
      in run (Line c) w2)"

definition remove_notification :: "tools \<Rightarrow> process \<Rightarrow> notification \<Rightarrow> process" where
  "remove_notification t w notification_item =
     (let w1 = w\<lparr>notification_set := set_discard notification_item (notification_set w)\<rparr>
      in run (Args [TERMUX_NOTIFICATION_REMOVE t, str_int (n_id notification_item)]) w1)"

text \<open>
  \<^verbatim>\<open>remove_all_notifications\<close> gathers one \<^verbatim>\<open>_run\<close> per element of the live set. Each
  \<^verbatim>\<open>_run\<close> hands its command to the shell; the log records them in iteration order.
\<close>

definition remove_all_notifications :: "tools \<Rightarrow> process \<Rightarrow> process" where
  "remove_all_notifications t w =
     fold (\<lambda>n. run (Args [TERMUX_NOTIFICATION_REMOVE t, str_int (n_id n)]))
       (notification_set w) w"

subsection \<open>The listener\<close>

text \<open>
  \<^verbatim>\<open>start_callback_server\<close> creates a new server bound to the socket path (asyncio
  unlinks a socket left at that path first), stores it in \<^verbatim>\<open>self.server\<close> and starts
  serving. A failure of the operating system to bind the path is outside the model.
\<close>

definition start_callback_server :: "process \<Rightarrow> process" where
  "start_callback_server w =
     (let w1 = w\<lparr>server := Some Bound\<rparr> in w1\<lparr>server := Some Serving\<rparr>)"

text \<open>\<^verbatim>\<open>is_serving\<close>: \<^verbatim>\<open>self.server.is_serving() if self.server else False\<close>.\<close>

definition is_serving :: "process \<Rightarrow> bool" where
  "is_serving w = (case server w of None \<Rightarrow> False | Some s \<Rightarrow> s = Serving)"

text \<open>
  \<^verbatim>\<open>stop_callback_server\<close> is \<^verbatim>\<open>self.server.close()\<close> with no test of \<^verbatim>\<open>self.server\<close>:
  on \<^verbatim>\<open>None\<close> the attribute access raises \<^verbatim>\<open>AttributeError\<close>.
\<close>

definition stop_callback_server :: "process \<Rightarrow> outcome" where
  "stop_callback_server w =
     (case server w of
        None \<Rightarrow> Inl (AttributeError, w)
      | Some s \<Rightarrow> Inr (w\<lparr>server := Some Closed\<rparr>))"

subsection \<open>Dispatch\<close>

text \<open>
  \<^verbatim>\<open>_on_action_callback\<close>. The \<^verbatim>\<open>for ... else\<close> loop leaves \<^verbatim>\<open>n\<close> at the first element
  whose id is \<^verbatim>\<open>nid\<close> and returns when there is none: this is \<^const>\<open>find\<close>. The
  \<^verbatim>\<open>if/elif\<close> chain follows in the order of the source, then the discard for the two
  terminal tokens.
\<close>

definition on_action_callback :: "process \<Rightarrow> int \<Rightarrow> string \<Rightarrow> process" where
  "on_action_callback w nid' action =
     (case find (\<lambda>n. n_id n = nid') (notification_set w) of
        None \<Rightarrow> w
      | Some n \<Rightarrow>
          (let w1 =
             (if action = ACTION_CLICK \<and> truthy (action_click n)
                then create_task (action_click n) w
              else if action = ACTION_DELETE \<and> truthy (action_delete n)
                then create_task (action_delete n) w
              else if action = ACTION_MEDIA_PLAY \<and> truthy (action_media_play n)
                then create_task (action_media_play n) w
              else if action = ACTION_MEDIA_PAUSE \<and> truthy (action_media_pause n)
                then create_task (action_media_pause n) w
              else if action = ACTION_MEDIA_NEXT \<and> truthy (action_media_next n)
                then create_task (action_media_next n) w
              else if action = ACTION_MEDIA_PREVIOUS \<and> truthy (action_media_previous n)
                then create_task (action_media_previous n) w
              else if action = ACTION_BUTTON1 \<and> truthy (action_button1 n)
                then create_task (action_button1 n) w
              else if action = ACTION_BUTTON2 \<and> truthy (action_button2 n)
                then create_task (action_button2 n) w
              else if action = ACTION_BUTTON3 \<and> truthy (action_button3 n)
                then create_task (action_button3 n) w
              else w)
           in if action \<in> set [ACTION_CLICK, ACTION_DELETE]
              then w1\<lparr>notification_set := set_discard n (notification_set w1)\<rparr>
              else w1))"

text \<open>
  \<^verbatim>\<open>_callback_server\<close> handles one connection. The bytes of the request line either
  decode as UTF-8 or do not; \<^verbatim>\<open>int\<close> is a parameter \<open>to_int\<close> that gives \<open>None\<close>
  where Python raises \<^verbatim>\<open>ValueError\<close>. Both tuple unpackings raise \<^verbatim>\<open>ValueError\<close>
  unless the split gives exactly three, respectively two, fields. The method, the
  version and the first character of the path are not looked at. After the dispatch
  the handler writes the response and closes the connection; there is no
  \<^verbatim>\<open>try\<close> in the function, so a raise leaves it before the dispatch, the write and the
  \<^verbatim>\<open>close\<close>.
\<close>

datatype wire_line = Undecodable | Text string

text \<open>The fixed response: the status line, an empty line, and the body \<^verbatim>\<open>ok\<close>.\<close>

definition ok_response :: string where
  "ok_response = ''HTTP/1.1 200 OK'' @ [CHR 0x0D, CHR 0x0A, CHR 0x0D, CHR 0x0A] @ ''ok''"

definition callback_server :: "(string \<Rightarrow> int option) \<Rightarrow> process \<Rightarrow> wire_line \<Rightarrow> outcome" where
  "callback_server to_int w raw =
     (case raw of
        Undecodable \<Rightarrow> Inl (UnicodeDecodeError, w)
      | Text line \<Rightarrow>
          (case split_on CHR '' '' line of
             [method, http_path, http_version] \<Rightarrow>
               (case split_on CHR '':'' http_path of
                  [n_id_s, n_act] \<Rightarrow>
                    (case to_int (drop 1 n_id_s) of
                       None \<Rightarrow> Inl (ValueError, w)
                     | Some i \<Rightarrow>
                         (let w1 = on_action_callback w i n_act
                          in Inr (w1\<lparr>written := written w1 @ [ok_response],
                                     closed := closed w1 + 1\<rparr>)))
                | _ \<Rightarrow> Inl (ValueError, w))
           | _ \<Rightarrow> Inl (ValueError, w)))"

text \<open>
  Python's \<^verbatim>\<open>int\<close> on a string, for the code points this model has (below 256, where
  the decimal digits are \<^verbatim>\<open>0\<close> to \<^verbatim>\<open>9\<close>): white space is stripped at both ends, one
  sign may follow, then digits, where one underscore may stand between two digits.
  Anything else raises \<^verbatim>\<open>ValueError\<close>, here \<open>None\<close>. (The limit that recent
  interpreters put on the number of digits is not modelled; the theorems about
  \<open>callback_server\<close> hold for every \<open>to_int\<close>.)
\<close>

definition py_space :: "char \<Rightarrow> bool" where
  "py_space c =
     (c \<in> set [CHR 0x09, CHR 0x0A, CHR 0x0B, CHR 0x0C, CHR 0x0D, CHR 0x1C, CHR 0x1D,
               CHR 0x1E, CHR 0x1F, CHR 0x20, CHR 0x85, CHR 0xA0])"

definition py_strip :: "string \<Rightarrow> string" where
  "py_strip s = rev (dropWhile py_space (rev (dropWhile py_space s)))"

fun index_of :: "char \<Rightarrow> string \<Rightarrow> nat option" where
  "index_of c [] = None"
| "index_of c (x # xs) = (if x = c then Some 0 else map_option Suc (index_of c xs))"

definition digit_val :: "char \<Rightarrow> nat option" where
  "digit_val c = index_of c ''0123456789''"

text \<open>
  \<open>digits_val after_digit acc cs\<close> reads the rest of the digits; \<open>after_digit\<close> says
  that the character before was a digit, which an underscore and the end need.
\<close>

fun digits_val :: "bool \<Rightarrow> nat \<Rightarrow> string \<Rightarrow> nat option" where
  "digits_val after_digit acc [] = (if after_digit then Some acc else None)"
| "digits_val after_digit acc (c # cs) =
     (if c = CHR ''_''
      then (if after_digit \<and> cs \<noteq> [] then digits_val False acc cs else None)
      else (case digit_val c of
              None \<Rightarrow> None
            | Some d \<Rightarrow> digits_val True (10 * acc + d) cs))"

definition py_int :: "string \<Rightarrow> int option" where
  "py_int s =
     (case py_strip s of
        [] \<Rightarrow> None
      | c # cs \<Rightarrow>
          (if c = CHR ''-'' then map_option (\<lambda>k. - int k) (digits_val False 0 cs)
           else if c = CHR ''+'' then map_option int (digits_val False 0 cs)
           else map_option int (digits_val False 0 (c # cs))))"

text \<open>
  Follows the spec's words, not the source: the callback request names its target as
  \<^verbatim>\<open>/{id}:{action}\<close>, where the id is the decimal notification id and the action is
  one of the nine tokens. \<open>spec_resource\<close> says whether a path has that form.
\<close>

definition spec_resource :: "string \<Rightarrow> bool" where
  "spec_resource path =
     (case path of
        [] \<Rightarrow> False
      | c # rest \<Rightarrow>
          c = CHR ''/'' \<and>
          (case split_on CHR '':'' rest of
             [i, a] \<Rightarrow>
               (case i of
                  [] \<Rightarrow> False
                | d # ds \<Rightarrow>
                    (if d = CHR ''-'' then ds \<noteq> [] \<and> list_all (\<lambda>x. digit_val x \<noteq> None) ds
                     else list_all (\<lambda>x. digit_val x \<noteq> None) i)) \<and>
               a \<in> set [ACTION_CLICK, ACTION_DELETE, ACTION_BUTTON1, ACTION_BUTTON2,
                         ACTION_BUTTON3, ACTION_MEDIA_PLAY, ACTION_MEDIA_PAUSE,
                         ACTION_MEDIA_NEXT, ACTION_MEDIA_PREVIOUS]
           | _ \<Rightarrow> False))"

subsection \<open>Id allocation\<close>

text \<open>\<^verbatim>\<open>new_nid\<close>: increment the counter and return it. Python ints do not overflow.\<close>

definition new_nid :: "process \<Rightarrow> int \<times> process" where
  "new_nid w = (let w1 = w\<lparr>nid := nid w + 1\<rparr> in (nid w1, w1))"

text \<open>\<open>k\<close> calls in a row, with the returned values in call order.\<close>

fun new_nids :: "nat \<Rightarrow> process \<Rightarrow> int list \<times> process" where
  "new_nids 0 w = ([], w)"
| "new_nids (Suc k) w =
     (case new_nid w of (i, w1) \<Rightarrow> (case new_nids k w1 of (is, w2) \<Rightarrow> (i # is, w2)))"

subsection \<open>Reading the live set\<close>

definition live_ids :: "process \<Rightarrow> int set" where
  "live_ids w = n_id ` set (notification_set w)"

text \<open>The invariant of the live set: no two live notifications have the same id.\<close>

definition live_ok :: "process \<Rightarrow> bool" where
  "live_ok w = distinct (map n_id (notification_set w))"

text \<open>
  The handler a record binds to an action token, as the \<^verbatim>\<open>if/elif\<close> chain of the
  dispatcher reads it: each of the nine tokens names one field, any other token
  names none.
\<close>

definition bound_handler :: "notification \<Rightarrow> string \<Rightarrow> ActionCallback" where
  "bound_handler n action =
     (if action = ACTION_CLICK then action_click n
      else if action = ACTION_DELETE then action_delete n
      else if action = ACTION_MEDIA_PLAY then action_media_play n
      else if action = ACTION_MEDIA_PAUSE then action_media_pause n
      else if action = ACTION_MEDIA_NEXT then action_media_next n
      else if action = ACTION_MEDIA_PREVIOUS then action_media_previous n
      else if action = ACTION_BUTTON1 then action_button1 n
      else if action = ACTION_BUTTON2 then action_button2 n
      else if action = ACTION_BUTTON3 then action_button3 n
      else None)"

section \<open>Concrete inputs\<close>

definition example_tools :: tools where
  "example_tools =
     \<lparr> TERMUX_NOTIFICATION = ''/usr/bin/termux-notification'',
       TERMUX_NOTIFICATION_REMOVE = ''/usr/bin/termux-notification-remove'',
       CURL = ''/usr/bin/curl'' \<rparr>"

definition example_manager :: process where
  "example_manager = NotificationManager_init ''/tmp/cb.sock''"

definition plain_note :: "int \<Rightarrow> notification" where
  "plain_note i = Notification_init i ''hi'' [] [] [] [] False False False [] [] []"

definition two_live :: process where
  "two_live = example_manager
     \<lparr>notification_set := [plain_note 1, set_delete_action (plain_note 2) (Some (Handler 7))]\<rparr>"

definition old_note :: notification where
  "old_note = set_click_action (plain_note 5) (Some (Handler 1))"

definition new_note :: notification where
  "new_note = set_click_action (plain_note 5) (Some (Handler 2))"

definition titled_note :: notification where
  "titled_note = Notification_init 1 ''hi'' ''T'' [] [] [] False False False [] [] []"

definition media_note :: notification where
  "media_note = set_media_play_action (plain_note 1) (Some (Handler 3))"

definition pinned_note :: notification where
  "pinned_note =
     set_click_action (Notification_init 4 ''hi'' [] [] [] ''media'' False True False [] [] [])
       (Some (Handler 1))"


lemmas example_defs = example_manager_def NotificationManager_init_def plain_note_def
  Notification_init_def two_live_def set_delete_action_def set_click_action_def

section \<open>Properties of the live set and of dispatch\<close>

lemma map_n_id_set_discard:
  "map n_id (set_discard x xs) = remove1 (n_id x) (map n_id xs)"
  by (induction xs) (auto simp: notification_eq_def)

lemma set_discard_distinct:
  "distinct (map n_id xs) \<Longrightarrow> distinct (map n_id (set_discard x xs))"
  by (simp add: map_n_id_set_discard)

lemma set_discard_ids:
  "distinct (map n_id xs) \<Longrightarrow> n_id ` set (set_discard x xs) = n_id ` set xs - {n_id x}"
proof -
  assume d: "distinct (map n_id xs)"
  have "n_id ` set (set_discard x xs) = set (map n_id (set_discard x xs))" by simp
  also have "\<dots> = set (remove1 (n_id x) (map n_id xs))" by (simp only: map_n_id_set_discard)
  also have "\<dots> = set (map n_id xs) - {n_id x}" using d by (rule set_remove1_eq)
  finally show ?thesis by simp
qed

lemma find_Some_D: "find P xs = Some n \<Longrightarrow> n \<in> set xs \<and> P n"
  by (induction xs) (auto split: if_splits)

lemma find_None_ids: "(find (\<lambda>n. n_id n = i) xs = None) = (i \<notin> n_id ` set xs)"
  by (auto simp: find_None_iff)

lemma create_task_frame [simp]:
  "notification_set (create_task cb w) = notification_set w"
  "server (create_task cb w) = server w"
  "nid (create_task cb w) = nid w"
  "ran (create_task cb w) = ran w"
  "written (create_task cb w) = written w"
  "closed (create_task cb w) = closed w"
  "socketpath (create_task cb w) = socketpath w"
  by (cases cb; simp)+

lemma create_task_tasks:
  "tasks (create_task cb w) = tasks w @ (case cb of None \<Rightarrow> [] | Some h \<Rightarrow> [h])"
  by (cases cb) simp_all

lemma on_action_callback_set:
  "notification_set (on_action_callback w i action) =
     (case find (\<lambda>n. n_id n = i) (notification_set w) of
        None \<Rightarrow> notification_set w
      | Some n \<Rightarrow> if action = ACTION_CLICK \<or> action = ACTION_DELETE
                  then set_discard n (notification_set w) else notification_set w)"
  by (simp add: on_action_callback_def Let_def split: option.splits)

lemma on_action_callback_tasks:
  "tasks (on_action_callback w i action) =
     (case find (\<lambda>n. n_id n = i) (notification_set w) of
        None \<Rightarrow> tasks w
      | Some n \<Rightarrow> tasks w @ (case bound_handler n action of None \<Rightarrow> [] | Some h \<Rightarrow> [h]))"
  apply (cases "find (\<lambda>n. n_id n = i) (notification_set w)")
   apply (simp add: on_action_callback_def)
  apply (simp add: on_action_callback_def Let_def bound_handler_def create_task_tasks action_defs
      split: option.splits)
  done

text \<open>
  Claim C1. Dispatching \<^verbatim>\<open>click\<close> or \<^verbatim>\<open>delete\<close> for an id takes exactly that id out of
  the live set, whatever handlers the record binds; dispatching any other token
  leaves the live set as it was. The live set is assumed to satisfy its invariant.
\<close>

theorem terminal_action_removal:
  "live_ok w \<Longrightarrow>
     (action = ACTION_CLICK \<or> action = ACTION_DELETE \<longrightarrow>
        live_ids (on_action_callback w i action) = live_ids w - {i}) \<and>
     (action \<noteq> ACTION_CLICK \<and> action \<noteq> ACTION_DELETE \<longrightarrow>
        notification_set (on_action_callback w i action) = notification_set w)"
proof (cases "find (\<lambda>n. n_id n = i) (notification_set w)")
  case None
  assume "live_ok w"
  from None have "i \<notin> live_ids w" by (simp add: find_None_ids live_ids_def)
  with None show ?thesis by (simp add: on_action_callback_set live_ids_def)
next
  case (Some n)
  assume ok: "live_ok w"
  from Some have "n_id n = i" by (auto dest: find_Some_D)
  with ok Some show ?thesis
    by (simp add: on_action_callback_set live_ids_def live_ok_def set_discard_ids)
qed

theorem terminal_action_removal_witness:
  "live_ok two_live \<and> live_ids two_live = {1, 2} \<and>
   bound_handler (plain_note 1) ACTION_CLICK = None \<and>
   live_ids (on_action_callback two_live 1 ACTION_CLICK) = {2} \<and>
   live_ids (on_action_callback two_live 2 ACTION_DELETE) = {1} \<and>
   notification_set (on_action_callback two_live 1 ACTION_BUTTON1) = notification_set two_live"
proof -
  have ok: "live_ok two_live" by (simp add: live_ok_def example_defs)
  have ids: "live_ids two_live = {1, 2}" by (simp add: live_ids_def example_defs)
  have nb: "bound_handler (plain_note 1) ACTION_CLICK = None"
    by (simp add: bound_handler_def example_defs)
  from terminal_action_removal [OF ok, of ACTION_CLICK 1] terminal_action_removal [OF ok, of ACTION_DELETE 2]
    terminal_action_removal [OF ok, of ACTION_BUTTON1 1] ok ids nb
  show ?thesis by (auto simp add: action_defs)
qed


lemma run_frame [simp]:
  "notification_set (run c w) = notification_set w"
  "server (run c w) = server w"
  "nid (run c w) = nid w"
  "tasks (run c w) = tasks w"
  "written (run c w) = written w"
  "closed (run c w) = closed w"
  "socketpath (run c w) = socketpath w"
  by (cases c; simp)+

lemma set_add_fresh:
  "n_id x \<notin> n_id ` set xs \<Longrightarrow> set_add x xs = xs @ [x]"
  by (auto simp: set_add_def list_ex_iff notification_eq_def image_iff)

lemma send_notification_set:
  "distinct (map n_id (notification_set w)) \<Longrightarrow>
     notification_set (send_notification t w item) =
       set_discard item (notification_set w) @ [item]"
  by (simp add: send_notification_def Let_def set_add_fresh set_discard_ids)

lemma send_notification_live_ok:
  "live_ok w \<Longrightarrow> live_ok (send_notification t w item)"
  by (simp add: live_ok_def send_notification_set set_discard_ids set_discard_distinct)

lemma live_ok_init: "live_ok (NotificationManager_init path)"
  by (simp add: live_ok_def NotificationManager_init_def)

lemma foldl_send_live_ok:
  "live_ok w \<Longrightarrow> live_ok (foldl (send_notification t) w items)"
  by (induction items arbitrary: w) (simp_all add: send_notification_live_ok)

lemma find_snoc:
  "find P (xs @ [x]) =
     (case find P xs of None \<Rightarrow> (if P x then Some x else None) | Some y \<Rightarrow> Some y)"
  by (induction xs) simp_all

lemma filter_id_absent:
  "i \<notin> n_id ` set xs \<Longrightarrow> filter (\<lambda>n. n_id n = i) xs = []"
  by (induction xs) auto

text \<open>
  Claim C2. From a new manager, and from any live set without duplicate ids, any
  sequence of sends gives a live set without duplicate ids. After sending \<open>item\<close> the only live entry with its id is
  \<open>item\<close> itself, the dispatcher's lookup of that id finds \<open>item\<close>, and a dispatch for
  that id schedules the handler that \<open>item\<close> binds to the action and nothing else.
\<close>

theorem send_replaces_same_id:
  "live_ok w \<Longrightarrow>
     live_ok (foldl (send_notification t) (NotificationManager_init path) items) \<and>
     live_ok (foldl (send_notification t) w items) \<and>
     filter (\<lambda>n. n_id n = n_id item) (notification_set (send_notification t w item)) = [item] \<and>
     find (\<lambda>n. n_id n = n_id item) (notification_set (send_notification t w item)) = Some item \<and>
     tasks (on_action_callback (send_notification t w item) (n_id item) action) =
       tasks (send_notification t w item) @
         (case bound_handler item action of None \<Rightarrow> [] | Some h \<Rightarrow> [h])"
proof -
  assume ok: "live_ok w"
  let ?xs = "notification_set w"
  let ?w' = "send_notification t w item"
  from ok have d: "distinct (map n_id ?xs)" by (simp add: live_ok_def)
  have s: "notification_set ?w' = set_discard item ?xs @ [item]"
    using d by (rule send_notification_set)
  have absent: "n_id item \<notin> n_id ` set (set_discard item ?xs)"
    using d by (simp add: set_discard_ids)
  have f: "filter (\<lambda>n. n_id n = n_id item) (notification_set ?w') = [item]"
    using absent by (simp add: s filter_id_absent)
  have "find (\<lambda>n. n_id n = n_id item) (set_discard item ?xs) = None"
    using absent by (simp add: find_None_ids)
  then have g: "find (\<lambda>n. n_id n = n_id item) (notification_set ?w') = Some item"
    by (simp add: s find_snoc)
  have h: "tasks (on_action_callback ?w' (n_id item) action) =
       tasks ?w' @ (case bound_handler item action of None \<Rightarrow> [] | Some h \<Rightarrow> [h])"
    by (simp add: on_action_callback_tasks g)
  have k: "live_ok (foldl (send_notification t) (NotificationManager_init path) items)"
    using live_ok_init by (rule foldl_send_live_ok)
  from ok have "live_ok (foldl (send_notification t) w items)" by (rule foldl_send_live_ok)
  with f g h k show ?thesis by blast
qed

theorem send_replaces_same_id_witness:
  "live_ok (send_notification example_tools example_manager old_note) \<and>
   old_note \<in> set (notification_set (send_notification example_tools example_manager old_note)) \<and>
   notification_set (send_notification example_tools
      (send_notification example_tools example_manager old_note) new_note) = [new_note] \<and>
   tasks (on_action_callback (send_notification example_tools
      (send_notification example_tools example_manager old_note) new_note) 5 ACTION_CLICK)
     = [Handler 2]"
proof -
  let ?w1 = "send_notification example_tools example_manager old_note"
  have ok0: "live_ok example_manager" by (simp add: live_ok_def example_defs)
  have ok: "live_ok ?w1" using send_replaces_same_id [OF ok0, of example_tools _ "[old_note]"] by simp
  have s1: "notification_set ?w1 = [old_note]"
    by (simp add: send_notification_def Let_def set_add_def example_defs)
  have s2: "notification_set (send_notification example_tools ?w1 new_note) = [new_note]"
    by (simp add: send_notification_def Let_def set_add_def s1 notification_eq_def
        old_note_def new_note_def example_defs)
  have t: "tasks (send_notification example_tools ?w1 new_note) = []"
    by (simp add: send_notification_def Let_def example_defs)
  have b: "bound_handler new_note ACTION_CLICK = Some (Handler 2)"
    by (simp add: bound_handler_def new_note_def example_defs)
  have i: "n_id new_note = 5" by (simp add: new_note_def example_defs)
  from send_replaces_same_id [OF ok, of example_tools _ "[]" new_note ACTION_CLICK] ok s1 s2 t b i
  show ?thesis by simp
qed

text \<open>
  Claim C3. A dispatch for an id that is not live returns the state unchanged. A
  dispatch for which no live notification with that id binds a handler to the action
  schedules no handler. The dispatcher has no raising branch; its result is always a
  state.
\<close>

theorem unknown_routing_is_noop:
  "(i \<notin> live_ids w \<longrightarrow> on_action_callback w i action = w) \<and>
   ((\<forall>n \<in> set (notification_set w). n_id n = i \<longrightarrow> bound_handler n action = None) \<longrightarrow>
      tasks (on_action_callback w i action) = tasks w)"
proof (intro conjI impI)
  assume "i \<notin> live_ids w"
  then have "find (\<lambda>n. n_id n = i) (notification_set w) = None"
    by (simp add: find_None_ids live_ids_def)
  then show "on_action_callback w i action = w" by (simp add: on_action_callback_def)
next
  assume u: "\<forall>n \<in> set (notification_set w). n_id n = i \<longrightarrow> bound_handler n action = None"
  show "tasks (on_action_callback w i action) = tasks w"
  proof (cases "find (\<lambda>n. n_id n = i) (notification_set w)")
    case None
    then show ?thesis by (simp add: on_action_callback_tasks)
  next
    case (Some n)
    then have "n \<in> set (notification_set w)" "n_id n = i" by (auto dest: find_Some_D)
    with u have "bound_handler n action = None" by blast
    with Some show ?thesis by (simp add: on_action_callback_tasks)
  qed
qed

theorem unknown_routing_is_noop_witness:
  "3 \<notin> live_ids two_live \<and> on_action_callback two_live 3 ACTION_CLICK = two_live \<and>
   bound_handler (plain_note 1) ACTION_BUTTON1 = None \<and>
   tasks (on_action_callback two_live 1 ACTION_BUTTON1) = tasks two_live \<and>
   tasks (on_action_callback two_live 2 ''bogus'') = tasks two_live"
proof -
  have a: "3 \<notin> live_ids two_live" by (simp add: live_ids_def example_defs)
  have b: "\<forall>n \<in> set (notification_set two_live). n_id n = 1 \<longrightarrow> bound_handler n ACTION_BUTTON1 = None"
    by (simp add: bound_handler_def action_defs example_defs)
  have c: "\<forall>n \<in> set (notification_set two_live). n_id n = 2 \<longrightarrow> bound_handler n ''bogus'' = None"
    by (simp add: bound_handler_def action_defs example_defs)
  have d: "bound_handler (plain_note 1) ACTION_BUTTON1 = None"
    by (simp add: bound_handler_def action_defs example_defs)
  from unknown_routing_is_noop [of 3 two_live ACTION_CLICK] unknown_routing_is_noop [of 1 two_live ACTION_BUTTON1]
    unknown_routing_is_noop [of 2 two_live "''bogus''"] a b c d
  show ?thesis by blast
qed

lemma fold_run_frame:
  "notification_set (fold (\<lambda>n. run (f n)) xs w) = notification_set w \<and>
   tasks (fold (\<lambda>n. run (f n)) xs w) = tasks w \<and>
   server (fold (\<lambda>n. run (f n)) xs w) = server w \<and>
   nid (fold (\<lambda>n. run (f n)) xs w) = nid w"
  by (induction xs arbitrary: w) simp_all

lemma fold_run_ran:
  "ran (fold (\<lambda>n. run (Args (f n))) xs w) = ran w @ map (\<lambda>n. shlex_join (f n)) xs"
  by (induction xs arbitrary: w) simp_all

text \<open>
  Claim C10. \<^verbatim>\<open>remove_all_notifications\<close> runs one removal command for every live
  notification and leaves the live set as it was, so a dispatch afterwards schedules
  what it would have scheduled before; \<^verbatim>\<open>remove_notification\<close> takes the id of its
  argument out of the live set.
\<close>

theorem remove_all_keeps_live_set:
  "notification_set (remove_all_notifications t w) = notification_set w \<and>
   ran (remove_all_notifications t w) =
     ran w @ map (\<lambda>n. shlex_join [TERMUX_NOTIFICATION_REMOVE t, str_int (n_id n)])
               (notification_set w) \<and>
   tasks (on_action_callback (remove_all_notifications t w) i action) =
     tasks (on_action_callback w i action) \<and>
   (live_ok w \<longrightarrow> n_id item \<notin> live_ids (remove_notification t w item))"
proof -
  let ?w' = "remove_all_notifications t w"
  have a: "notification_set ?w' = notification_set w" and b: "tasks ?w' = tasks w"
    by (simp_all add: remove_all_notifications_def fold_run_frame)
  have c: "ran ?w' = ran w @ map (\<lambda>n. shlex_join [TERMUX_NOTIFICATION_REMOVE t, str_int (n_id n)])
               (notification_set w)"
    by (simp add: remove_all_notifications_def fold_run_ran)
  have d: "tasks (on_action_callback ?w' i action) = tasks (on_action_callback w i action)"
    by (simp only: on_action_callback_tasks a b)
  have e: "live_ok w \<longrightarrow> n_id item \<notin> live_ids (remove_notification t w item)"
    by (simp add: remove_notification_def Let_def live_ok_def live_ids_def set_discard_ids)
  from a c d e show ?thesis by blast
qed

theorem remove_all_keeps_live_set_witness:
  "live_ok two_live \<and>
   notification_set (remove_all_notifications example_tools two_live) = notification_set two_live \<and>
   ran (remove_all_notifications example_tools two_live) =
     [''/usr/bin/termux-notification-remove 1'', ''/usr/bin/termux-notification-remove 2''] \<and>
   tasks (on_action_callback (remove_all_notifications example_tools two_live) 2 ACTION_DELETE)
     = [Handler 7] \<and>
   1 \<notin> live_ids (remove_notification example_tools two_live (plain_note 1))"
proof -
  have ok: "live_ok two_live" by (simp add: live_ok_def example_defs)
  have q: "shlex_join [''/usr/bin/termux-notification-remove'', ''1''] = ''/usr/bin/termux-notification-remove 1''"
      "shlex_join [''/usr/bin/termux-notification-remove'', ''2''] = ''/usr/bin/termux-notification-remove 2''"
    by (simp_all add: shlex_join_def shlex_quote_def safe_char_def)
  have s: "str_int 1 = ''1''" "str_int 2 = ''2''"
    by (simp_all add: str_int_def str_nat.simps)
  have r: "ran two_live = []" "n_id (plain_note 1) = 1"
    "notification_set two_live = [plain_note 1, set_delete_action (plain_note 2) (Some (Handler 7))]"
    "n_id (set_delete_action (plain_note 2) (Some (Handler 7))) = 2"
    by (simp_all add: example_defs)
  have t: "tasks (on_action_callback two_live 2 ACTION_DELETE) = [Handler 7]"
    by (simp add: on_action_callback_tasks bound_handler_def action_defs example_defs)
  from remove_all_keeps_live_set [of example_tools two_live 2 ACTION_DELETE "plain_note 1"] ok t
  show ?thesis by (simp add: r s q example_tools_def)
qed

lemma new_nids_length: "length (fst (new_nids k w)) = k"
  by (induction k arbitrary: w) (simp_all add: new_nid_def Let_def split_beta)

lemma new_nids_above: "j \<in> set (fst (new_nids k w)) \<Longrightarrow> nid w < j"
proof (induction k arbitrary: w)
  case 0
  then show ?case by simp
next
  case (Suc k)
  then show ?case
    by (fastforce simp: new_nid_def Let_def split_beta)
qed

lemma new_nids_sorted: "sorted_wrt (<) (fst (new_nids k w))"
proof (induction k arbitrary: w)
  case 0
  then show ?case by simp
next
  case (Suc k)
  have "\<forall>j \<in> set (fst (new_nids k (w\<lparr>nid := nid w + 1\<rparr>))). nid w + 1 < j"
    using new_nids_above [of _ k "w\<lparr>nid := nid w + 1\<rparr>"] by simp
  with Suc [of "w\<lparr>nid := nid w + 1\<rparr>"] show ?case
    by (simp add: new_nid_def Let_def split_beta)
qed

lemma new_nids_counter: "nid (snd (new_nids k w)) = nid w + int k"
  by (induction k arbitrary: w) (simp_all add: new_nid_def Let_def split_beta)

text \<open>No other operation writes the counter.\<close>

lemma nid_frame:
  "nid (send_notification t w n) = nid w"
  "nid (remove_notification t w n) = nid w"
  "nid (remove_all_notifications t w) = nid w"
  "nid (on_action_callback w i action) = nid w"
  "nid (start_callback_server w) = nid w"
  by (simp_all add: send_notification_def remove_notification_def remove_all_notifications_def
      fold_run_frame on_action_callback_def start_callback_server_def Let_def
      split: option.splits)

text \<open>
  Claim C7. From a counter that is not negative (it starts at zero), \<open>k\<close> calls of
  \<^verbatim>\<open>new_nid\<close> return \<open>k\<close> values that are pairwise distinct, strictly increasing and
  greater than zero. \<^verbatim>\<open>new_nid\<close> has no failing branch.
\<close>

theorem new_nid_fresh_increasing:
  "0 \<le> nid w \<Longrightarrow>
     length (fst (new_nids k w)) = k \<and>
     distinct (fst (new_nids k w)) \<and>
     sorted_wrt (<) (fst (new_nids k w)) \<and>
     (\<forall>j \<in> set (fst (new_nids k w)). 0 < j)"
proof -
  assume nn: "0 \<le> nid w"
  have s: "sorted_wrt (<) (fst (new_nids k w))" by (rule new_nids_sorted)
  then have d: "distinct (fst (new_nids k w))" by (simp add: strict_sorted_iff)
  have "\<forall>j \<in> set (fst (new_nids k w)). 0 < j"
    using new_nids_above [of _ k w] nn by fastforce
  with s d show ?thesis by (simp add: new_nids_length)
qed

theorem new_nid_fresh_increasing_witness:
  "nid example_manager = 0 \<and> fst (new_nids 3 example_manager) = [1, 2, 3] \<and>
   distinct (fst (new_nids 3 example_manager)) \<and>
   sorted_wrt (<) (fst (new_nids 3 example_manager))"
proof -
  have z: "0 \<le> nid example_manager" by (simp add: example_defs)
  have v: "fst (new_nids 3 example_manager) = [1, 2, 3]"
    by (simp add: numeral_3_eq_3 new_nid_def Let_def example_defs)
  from new_nid_fresh_increasing [OF z, of 3] v show ?thesis by (simp add: example_defs)
qed

section \<open>The invariant holds in every reachable state\<close>

text \<open>
  A new manager satisfies \<open>live_ok\<close> and \<^verbatim>\<open>send_notification\<close> keeps it (above); so
  does every other operation.
\<close>

lemma live_ok_on_action_callback: "live_ok w \<Longrightarrow> live_ok (on_action_callback w i action)"
  by (simp add: live_ok_def on_action_callback_set set_discard_distinct split: option.splits)

lemma live_ok_remove_notification: "live_ok w \<Longrightarrow> live_ok (remove_notification t w item)"
  by (simp add: live_ok_def remove_notification_def Let_def set_discard_distinct)

lemma live_ok_remove_all: "live_ok w \<Longrightarrow> live_ok (remove_all_notifications t w)"
  by (simp add: live_ok_def remove_all_notifications_def fold_run_frame)

lemma live_ok_start: "live_ok w \<Longrightarrow> live_ok (start_callback_server w)"
  by (simp add: live_ok_def start_callback_server_def Let_def)

lemma live_ok_stop: "live_ok w \<Longrightarrow> stop_callback_server w = Inr w' \<Longrightarrow> live_ok w'"
  by (auto simp: live_ok_def stop_callback_server_def split: option.splits)

lemma live_ok_new_nid: "live_ok w \<Longrightarrow> live_ok (snd (new_nid w))"
  by (simp add: live_ok_def new_nid_def Let_def)

lemma live_ok_callback_server:
  "live_ok w \<Longrightarrow> callback_server to_int w raw = Inr w' \<Longrightarrow> live_ok w'"
proof -
  assume ok: "live_ok w" and r: "callback_server to_int w raw = Inr w'"
  have "\<And>i a. live_ok ((on_action_callback w i a)\<lparr>written :=
      written (on_action_callback w i a) @ [ok_response],
      closed := closed (on_action_callback w i a) + 1\<rparr>)"
    using live_ok_on_action_callback [OF ok] by (simp add: live_ok_def)
  with r show ?thesis
    by (auto simp: callback_server_def Let_def
        split: wire_line.splits list.splits option.splits)
qed

section \<open>The button setters\<close>

lemma set_button1_stores:
  "set_button1 n button_text cb = n\<lparr>button1 := button_text, action_button1 := cb\<rparr>"
  by (simp add: set_button1_def Let_def)

text \<open>
  Claim C4 says that a button setter called with an empty label or an absent handler
  leaves the label empty and the handler absent. The setters store both arguments
  in every case: \<^verbatim>\<open>set_button1("OK", None)\<close> on a fresh notification leaves the label
  \<^verbatim>\<open>OK\<close>, an empty label with a handler leaves the handler bound, and setting a
  button and then calling the setter with no handler does not give back the
  notification that never had the button. The same holds for slots 2 and 3.
\<close>

theorem set_button_stores_unpaired_arguments:
  "button1 (set_button1 (plain_note 1) ''OK'' None) = ''OK'' \<and>
   action_button1 (set_button1 (plain_note 1) [] (Some (Handler 1))) = Some (Handler 1) \<and>
   set_button1 (set_button1 (plain_note 1) ''OK'' (Some (Handler 1))) ''OK'' None \<noteq> plain_note 1 \<and>
   button2 (set_button2 (plain_note 1) ''OK'' None) = ''OK'' \<and>
   button3 (set_button3 (plain_note 1) ''OK'' None) = ''OK''"
  by (simp add: set_button1_def set_button2_def set_button3_def Let_def example_defs)

section \<open>The listener\<close>

lemma start_then_serving:
  "is_serving (start_callback_server w)"
  "is_serving (start_callback_server (start_callback_server w))"
  "server w = Some s \<Longrightarrow> \<exists>w'. stop_callback_server w = Inr w' \<and> \<not> is_serving w'"
  by (simp_all add: is_serving_def start_callback_server_def stop_callback_server_def Let_def)

text \<open>
  Claim C6 says that stopping a listener that is not serving does not raise. A
  manager that was never started is not serving, and \<^verbatim>\<open>stop_callback_server\<close> on it
  raises \<^verbatim>\<open>AttributeError\<close>, since \<^verbatim>\<open>self.server\<close> is \<^verbatim>\<open>None\<close>.
\<close>

theorem stop_before_start_raises:
  "\<not> is_serving example_manager \<and>
   stop_callback_server example_manager = Inl (AttributeError, example_manager)"
  by (simp add: is_serving_def stop_callback_server_def example_defs)

section \<open>The display command\<close>

lemma values_of_append: "values_of f (xs @ ys) = values_of f xs @ values_of f ys"
  by (induction f xs rule: values_of.induct) simp_all

lemma values_of_if:
  "values_of f (if c then xs else ys) = (if c then values_of f xs else values_of f ys)"
  by simp

lemma opts_click:
 "values_of ''--action'' (notification_opts t w n) =
     (if truthy (action_click n) \<or> \<not> ongoing n
      then [curl_cmd t w (callback_id n ACTION_CLICK)] else [])"
  unfolding notification_opts_def values_of_append values_of_if
  by (simp split del: if_split cong: if_cong)

lemma opts_delete:
 "values_of ''--on-delete'' (notification_opts t w n) =
     (if truthy (action_delete n) \<or> \<not> ongoing n
      then [curl_cmd t w (callback_id n ACTION_DELETE)] else [])"
  unfolding notification_opts_def values_of_append values_of_if
  by (simp split del: if_split cong: if_cong)

lemma opts_button1:
 "values_of ''--button1-action'' (notification_opts t w n) =
     (if truthy (action_button1 n) then [curl_cmd t w (callback_id n ACTION_BUTTON1)] else [])"
  unfolding notification_opts_def values_of_append values_of_if
  by (simp split del: if_split cong: if_cong)

lemma opts_button2:
 "values_of ''--button2-action'' (notification_opts t w n) =
     (if truthy (action_button2 n) then [curl_cmd t w (callback_id n ACTION_BUTTON2)] else [])"
  unfolding notification_opts_def values_of_append values_of_if
  by (simp split del: if_split cong: if_cong)

lemma opts_button3:
 "values_of ''--button3-action'' (notification_opts t w n) =
     (if truthy (action_button3 n) then [curl_cmd t w (callback_id n ACTION_BUTTON3)] else [])"
  unfolding notification_opts_def values_of_append values_of_if
  by (simp split del: if_split cong: if_cong)

lemma opts_media_play:
 "values_of ''--media-play'' (notification_opts t w n) =
     (if n_type n = ''media'' \<and> truthy (action_media_play n)
      then [curl_cmd t w (callback_id n ACTION_MEDIA_PLAY)] else [])"
  unfolding notification_opts_def values_of_append values_of_if
  by (simp split del: if_split cong: if_cong) simp

lemma opts_media_pause:
 "values_of ''--media-pause'' (notification_opts t w n) =
     (if n_type n = ''media'' \<and> truthy (action_media_pause n)
      then [curl_cmd t w (callback_id n ACTION_MEDIA_PAUSE)] else [])"
  unfolding notification_opts_def values_of_append values_of_if
  by (simp split del: if_split cong: if_cong) simp

lemma opts_media_next:
 "values_of ''--media-next'' (notification_opts t w n) =
     (if n_type n = ''media'' \<and> truthy (action_media_next n)
      then [curl_cmd t w (callback_id n ACTION_MEDIA_NEXT)] else [])"
  unfolding notification_opts_def values_of_append values_of_if
  by (simp split del: if_split cong: if_cong) simp

lemma opts_media_previous:
 "values_of ''--media-previous'' (notification_opts t w n) =
     (if n_type n = ''media'' \<and> truthy (action_media_previous n)
      then [curl_cmd t w (callback_id n ACTION_MEDIA_PREVIOUS)] else [])"
  unfolding notification_opts_def values_of_append values_of_if
  by (simp split del: if_split cong: if_cong) simp


lemma notification_opts_socket:
  "socketpath w' = socketpath w \<Longrightarrow> notification_opts t w' n = notification_opts t w n"
  by (simp add: notification_opts_def curl_cmd_def)

lemma send_notification_ran:
  "ran (send_notification t w n) = ran w @ [shlex_join (concat (notification_opts t w n))]"
proof -
  let ?w2 = "w\<lparr>notification_set := set_add n (set_discard n (notification_set w))\<rparr>"
  have "notification_opts t ?w2 n = notification_opts t w n"
    by (rule notification_opts_socket) simp
  then show ?thesis
    by (simp add: send_notification_def Let_def notification_cmd_def)
qed

text \<open>
  Claim C5, as amended. The command that \<^verbatim>\<open>send_notification\<close> runs is the
  \<^verbatim>\<open>shlex.join\<close> of the options below. It carries the click callback exactly when a
  click handler is bound or the notification is not ongoing, and likewise the delete
  callback; the callback of a button exactly when that button's handler is bound;
  and the callback of a media action exactly when the notification's type is
  \<^verbatim>\<open>media\<close> and that media handler is bound. Each callback is the curl command for
  the notification's id and the action's token.
\<close>

theorem display_command_callbacks:
  "ran (send_notification t w n) = ran w @ [shlex_join (concat (notification_opts t w n))] \<and>
   values_of ''--action'' (notification_opts t w n) =
     (if truthy (action_click n) \<or> \<not> ongoing n
      then [curl_cmd t w (callback_id n ACTION_CLICK)] else []) \<and>
   values_of ''--on-delete'' (notification_opts t w n) =
     (if truthy (action_delete n) \<or> \<not> ongoing n
      then [curl_cmd t w (callback_id n ACTION_DELETE)] else []) \<and>
   values_of ''--button1-action'' (notification_opts t w n) =
     (if truthy (action_button1 n) then [curl_cmd t w (callback_id n ACTION_BUTTON1)] else []) \<and>
   values_of ''--button2-action'' (notification_opts t w n) =
     (if truthy (action_button2 n) then [curl_cmd t w (callback_id n ACTION_BUTTON2)] else []) \<and>
   values_of ''--button3-action'' (notification_opts t w n) =
     (if truthy (action_button3 n) then [curl_cmd t w (callback_id n ACTION_BUTTON3)] else []) \<and>
   values_of ''--media-play'' (notification_opts t w n) =
     (if n_type n = ''media'' \<and> truthy (action_media_play n)
      then [curl_cmd t w (callback_id n ACTION_MEDIA_PLAY)] else []) \<and>
   values_of ''--media-pause'' (notification_opts t w n) =
     (if n_type n = ''media'' \<and> truthy (action_media_pause n)
      then [curl_cmd t w (callback_id n ACTION_MEDIA_PAUSE)] else []) \<and>
   values_of ''--media-next'' (notification_opts t w n) =
     (if n_type n = ''media'' \<and> truthy (action_media_next n)
      then [curl_cmd t w (callback_id n ACTION_MEDIA_NEXT)] else []) \<and>
   values_of ''--media-previous'' (notification_opts t w n) =
     (if n_type n = ''media'' \<and> truthy (action_media_previous n)
      then [curl_cmd t w (callback_id n ACTION_MEDIA_PREVIOUS)] else [])"
  by (simp only: send_notification_ran opts_click opts_delete opts_button1 opts_button2
      opts_button3 opts_media_play opts_media_pause opts_media_next opts_media_previous
      simp_thms)

theorem display_command_callbacks_witness:
  "values_of ''--action'' (notification_opts example_tools example_manager pinned_note) =
     [curl_cmd example_tools example_manager (callback_id pinned_note ACTION_CLICK)] \<and>
   values_of ''--on-delete'' (notification_opts example_tools example_manager pinned_note) = [] \<and>
   values_of ''--media-play'' (notification_opts example_tools example_manager pinned_note) = [] \<and>
   values_of ''--on-delete'' (notification_opts example_tools example_manager (plain_note 1)) =
     [curl_cmd example_tools example_manager (callback_id (plain_note 1) ACTION_DELETE)]"
proof -
  have p: "truthy (action_click pinned_note)" "ongoing pinned_note"
    "\<not> truthy (action_delete pinned_note)" "\<not> truthy (action_media_play pinned_note)"
    by (simp_all add: pinned_note_def set_click_action_def Notification_init_def)
  have q: "\<not> ongoing (plain_note 1)"
    by (simp add: example_defs)
  from display_command_callbacks [of example_tools example_manager pinned_note]
    display_command_callbacks [of example_tools example_manager "plain_note 1"] p q
  show ?thesis by simp
qed

text \<open>
  Claim C5 as it is stated, a callback for every bound action, fails: a notification
  whose type is not \<^verbatim>\<open>media\<close> and whose media-play handler is bound gets a command
  without a media-play option, and the media-play callback is none of the command's
  arguments.
\<close>

theorem media_callback_needs_media_type:
  "bound_handler media_note ACTION_MEDIA_PLAY = Some (Handler 3) \<and>
   values_of ''--media-play'' (notification_opts example_tools example_manager media_note) = [] \<and>
   curl_cmd example_tools example_manager (callback_id media_note ACTION_MEDIA_PLAY)
     \<notin> set (concat (notification_opts example_tools example_manager media_note))"
proof -
  have n: "n_type media_note = []" "\<not> ongoing media_note" "title media_note = []"
    "group media_note = []" "priority media_note = []" "\<not> alert_once media_note"
    "\<not> sound media_note" "image_path media_note = []" "icon media_note = []"
    "vibrate media_note = []" "button1 media_note = []" "button2 media_note = []"
    "button3 media_note = []" "action_button1 media_note = None"
    "action_button2 media_note = None" "action_button3 media_note = None"
    "action_click media_note = None" "action_delete media_note = None"
    "action_media_play media_note = Some (Handler 3)" "n_id media_note = 1"
    "content media_note = ''hi''"
    by (simp_all add: media_note_def set_media_play_action_def example_defs)
  have a: "bound_handler media_note ACTION_MEDIA_PLAY = Some (Handler 3)"
    by (simp add: bound_handler_def action_defs n)
  have b: "values_of ''--media-play'' (notification_opts example_tools example_manager media_note) = []"
    by (simp add: opts_media_play n)
  have o: "notification_opts example_tools example_manager media_note =
     [[TERMUX_NOTIFICATION example_tools], [''--id'', str_int 1], [''--content'', ''hi''],
      [''--action'', curl_cmd example_tools example_manager (callback_id media_note ACTION_CLICK)],
      [''--on-delete'', curl_cmd example_tools example_manager (callback_id media_note ACTION_DELETE)]]"
    unfolding notification_opts_def by (simp add: n)
  have s: "str_int 1 = ''1''" by (simp add: str_int_def str_nat.simps)
  have q: "shlex_quote ''/usr/bin/curl'' = ''/usr/bin/curl''" "shlex_quote ''-GET'' = ''-GET''"
    "shlex_quote ''--unix-socket'' = ''--unix-socket''" "shlex_quote ''/tmp/cb.sock'' = ''/tmp/cb.sock''"
    "shlex_quote ''http://localhost/1:click'' = ''http://localhost/1:click''"
    "shlex_quote ''http://localhost/1:delete'' = ''http://localhost/1:delete''"
    "shlex_quote ''http://localhost/1:media_play'' = ''http://localhost/1:media_play''"
    by (simp_all add: shlex_quote_def safe_char_def)
  have c1: "curl_cmd example_tools example_manager (callback_id media_note ACTION_CLICK) =
      ''/usr/bin/curl -GET --unix-socket /tmp/cb.sock http://localhost/1:click''"
    by (simp add: curl_cmd_def callback_id_def n s action_defs shlex_join_def q
        example_tools_def example_manager_def NotificationManager_init_def)
  have c2: "curl_cmd example_tools example_manager (callback_id media_note ACTION_DELETE) =
      ''/usr/bin/curl -GET --unix-socket /tmp/cb.sock http://localhost/1:delete''"
    by (simp add: curl_cmd_def callback_id_def n s action_defs shlex_join_def q
        example_tools_def example_manager_def NotificationManager_init_def)
  have c3: "curl_cmd example_tools example_manager (callback_id media_note ACTION_MEDIA_PLAY) =
      ''/usr/bin/curl -GET --unix-socket /tmp/cb.sock http://localhost/1:media_play''"
    by (simp add: curl_cmd_def callback_id_def n s action_defs shlex_join_def q
        example_tools_def example_manager_def NotificationManager_init_def)
  have c: "curl_cmd example_tools example_manager (callback_id media_note ACTION_MEDIA_PLAY)
     \<notin> set (concat (notification_opts example_tools example_manager media_note))"
    unfolding o c1 c2 c3 by (simp add: s example_tools_def)
  from a b c show ?thesis by blast
qed

text \<open>
  The display attributes: the id and the content are always given once; group,
  priority, type, image path, icon and vibration pattern once when they are not
  empty, the three boolean flags once when they are set. The title is given twice
  when it is not empty.
\<close>

lemma flag_count_append: "flag_count f (xs @ ys) = flag_count f xs + flag_count f ys"
  by (simp add: flag_count_def)

lemma flag_count_if:
  "flag_count f (if c then xs else ys) = (if c then flag_count f xs else flag_count f ys)"
  by simp

lemma flag_count_simps:
  "flag_count f [] = 0"
  "flag_count f (g # gs) = (if g = [f] then 1 else 0) + flag_count f gs"
  by (simp_all add: flag_count_def)

lemma opts_title:
  "values_of ''--title'' (notification_opts t w n) =
     (if title n \<noteq> [] then [title n, title n] else [])"
  unfolding notification_opts_def values_of_append values_of_if
  by (simp split del: if_split cong: if_cong) simp

lemma opts_other_attributes:
  "values_of ''--id'' (notification_opts t w n) = [str_int (n_id n)]"
  "values_of ''--content'' (notification_opts t w n) = [content n]"
  "values_of ''--group'' (notification_opts t w n) = (if group n \<noteq> [] then [group n] else [])"
  "values_of ''--priority'' (notification_opts t w n) =
     (if priority n \<noteq> [] then [priority n] else [])"
  "values_of ''--type'' (notification_opts t w n) = (if n_type n \<noteq> [] then [n_type n] else [])"
  "values_of ''--image-path'' (notification_opts t w n) =
     (if image_path n \<noteq> [] then [image_path n] else [])"
  "values_of ''--icon'' (notification_opts t w n) = (if icon n \<noteq> [] then [icon n] else [])"
  "values_of ''--vibrate'' (notification_opts t w n) =
     (if vibrate n \<noteq> [] then [vibrate n] else [])"
  unfolding notification_opts_def values_of_append values_of_if
  by (simp_all split del: if_split cong: if_cong)

lemma opts_flags:
  "flag_count ''--alert-once'' (tl (notification_opts t w n)) = (if alert_once n then 1 else 0)"
  "flag_count ''--ongoing'' (tl (notification_opts t w n)) = (if ongoing n then 1 else 0)"
  "flag_count ''--sound'' (tl (notification_opts t w n)) = (if sound n then 1 else 0)"
  unfolding notification_opts_def
  by (simp_all add: flag_count_append flag_count_if flag_count_simps
      split del: if_split cong: if_cong)

text \<open>
  Claim C9 says that the command carries at most one flag/value pair per display
  attribute. \<^verbatim>\<open>_notification_cmd\<close> has the line for the title twice, after the id and
  content and again as its last line, so a notification with a title gets the title
  pair twice.
\<close>

theorem title_pair_emitted_twice:
  "values_of ''--title'' (notification_opts example_tools example_manager titled_note)
     = [''T'', ''T'']"
  unfolding notification_opts_def values_of_append values_of_if
  by (simp add: titled_note_def Notification_init_def split del: if_split cong: if_cong)

section \<open>Malformed callback requests\<close>





text \<open>
  A request of the spec's form is never rejected: when the three fields have no
  space in them and the path has the form \<^verbatim>\<open>/{id}:{action}\<close>, the handler returns
  normally. So every line on which it raises is malformed.
\<close>

lemma split_on_absent: "c \<notin> set xs \<Longrightarrow> split_on c xs = [xs]"
  by (induction xs) auto

lemma split_on_first: "c \<notin> set xs \<Longrightarrow> split_on c (xs @ c # ys) = xs # split_on c ys"
  by (induction xs) auto

lemma split_on_three:
  "c \<notin> set xs \<Longrightarrow> c \<notin> set ys \<Longrightarrow> c \<notin> set zs \<Longrightarrow>
     split_on c (xs @ c # ys @ c # zs) = [xs, ys, zs]"
  by (simp add: split_on_first split_on_absent)

lemma digit_val_Some: "digit_val x \<noteq> None \<Longrightarrow> x \<in> set ''0123456789''"
  by (auto simp: digit_val_def split: if_splits)

lemma digit_not_special:
  "digit_val x \<noteq> None \<Longrightarrow> \<not> py_space x \<and> x \<noteq> CHR ''_'' \<and> x \<noteq> CHR ''-'' \<and> x \<noteq> CHR ''+''"
  using digit_val_Some [of x] by (auto simp: py_space_def digit_val_def)

lemma digits_val_all_digits:
  "list_all (\<lambda>x. digit_val x \<noteq> None) ds \<Longrightarrow> ds \<noteq> [] \<or> b \<Longrightarrow> \<exists>k. digits_val b acc ds = Some k"
proof (induction ds arbitrary: b acc)
  case Nil
  then show ?case by simp
next
  case (Cons d ds)
  then have "digit_val d \<noteq> None" by simp
  then obtain v where v: "digit_val d = Some v" and u: "d \<noteq> CHR ''_''"
    using digit_not_special by blast
  from Cons.prems have "list_all (\<lambda>x. digit_val x \<noteq> None) ds" by simp
  then have "\<exists>k. digits_val True (10 * acc + v) ds = Some k" by (rule Cons.IH) simp
  with v u show ?case by simp
qed

lemma py_strip_id: "xs \<noteq> [] \<Longrightarrow> \<not> py_space (hd xs) \<Longrightarrow> \<not> py_space (last xs) \<Longrightarrow> py_strip xs = xs"
proof -
  assume n: "xs \<noteq> []" and h: "\<not> py_space (hd xs)" and l: "\<not> py_space (last xs)"
  from h have a: "dropWhile py_space xs = xs" by (simp add: dropWhile_eq_self_iff)
  from n l have b: "dropWhile py_space (rev xs) = rev xs"
    by (simp add: dropWhile_eq_self_iff hd_rev)
  show ?thesis by (simp add: py_strip_def a b)
qed

lemma py_int_decimal:
  assumes "i = d # ds"
    and "if d = CHR ''-'' then ds \<noteq> [] \<and> list_all (\<lambda>x. digit_val x \<noteq> None) ds
         else list_all (\<lambda>x. digit_val x \<noteq> None) i"
  shows "\<exists>k. py_int i = Some k"
proof (cases "d = CHR ''-''")
  case True
  with assms have ds: "ds \<noteq> []" "list_all (\<lambda>x. digit_val x \<noteq> None) ds" by simp_all
  then have "digit_val (last ds) \<noteq> None" by (simp add: list_all_iff)
  then have "\<not> py_space (last ds)" using digit_not_special by blast
  moreover have "\<not> py_space d" using True by (simp add: py_space_def)
  ultimately have s: "py_strip i = i" using assms(1) ds(1) by (simp add: py_strip_id)
  from digits_val_all_digits [OF ds(2), of False 0] ds(1)
  obtain k where "digits_val False 0 ds = Some k" by blast
  with s True assms(1) show ?thesis by (simp add: py_int_def)
next
  case False
  with assms have a: "list_all (\<lambda>x. digit_val x \<noteq> None) (d # ds)" by simp
  then have "digit_val d \<noteq> None" "digit_val (last (d # ds)) \<noteq> None"
    by (simp_all add: list_all_iff)
  then have n: "\<not> py_space d" "\<not> py_space (last (d # ds))" "d \<noteq> CHR ''+''"
    using digit_not_special by blast+
  then have s: "py_strip i = i" using assms(1) by (simp add: py_strip_id)
  from digits_val_all_digits [OF a, of False 0]
  obtain k where "digits_val False 0 (d # ds) = Some k" by blast
  with s False n assms(1) show ?thesis by (simp add: py_int_def del: digits_val.simps)
qed

lemma spec_request_parsed:
  assumes sp: "CHR '' '' \<notin> set method" "CHR '' '' \<notin> set path" "CHR '' '' \<notin> set version"
    and r: "spec_resource path"
  shows "\<exists>w'. callback_server py_int w (Text (method @ CHR '' '' # path @ CHR '' '' # version))
            = Inr w'"
proof -
  from r obtain rest where p: "path = CHR ''/'' # rest"
    by (auto simp: spec_resource_def split: list.splits)
  from r p obtain i a where ia: "split_on CHR '':'' rest = [i, a]"
    by (auto simp: spec_resource_def split: list.splits)
  from r p ia obtain d ds where i: "i = d # ds"
    and g: "if d = CHR ''-'' then ds \<noteq> [] \<and> list_all (\<lambda>x. digit_val x \<noteq> None) ds
         else list_all (\<lambda>x. digit_val x \<noteq> None) i"
    by (auto simp: spec_resource_def split: list.splits if_splits)
  from py_int_decimal [OF i g] obtain k where k: "py_int i = Some k" by blast
  have f: "split_on CHR '' '' (method @ CHR '' '' # path @ CHR '' '' # version)
      = [method, path, version]"
    using sp by (rule split_on_three)
  have q: "split_on CHR '':'' path = [CHR ''/'' # i, a]"
    using ia by (simp add: p)
  show ?thesis
    by (simp add: callback_server_def f q k Let_def)
qed






end
